theory Spec2Isabelle
  imports Complex_Main "HOL-Library.Word"
begin

unbundle bit_operations_syntax

section \<open>JavaScript values used by the adapter\<close>

text \<open>
  The adapter of \<^verbatim>\<open>src/index.ts\<close> (and its browser build) is TypeScript that runs
  on a JavaScript engine.  Bytes are the elements of a \<^verbatim>\<open>Uint8Array\<close>; an exception is
  a value of \<open>exn\<close>, and a computation that may throw returns \<open>exn + 'a\<close>.
\<close>

type_synonym byte = "8 word"

datatype exn =
    RangeError
  | TypeError
  | RuntimeError string
  | Error string

text \<open>
  The values of type \<^verbatim>\<open>number\<close> that the marshalling arithmetic can produce from
  integer operands: a finite value, \<^verbatim>\<open>NaN\<close> or an infinity.  Finite values are kept as
  exact rationals: the rounding of binary64 is not part of the model, so a finite result
  is the source's result whenever the exact value is representable (in particular
  whenever it is an integer below \<open>2^53\<close>, which is the case for every buffer whose length
  is a multiple of the shard count).
\<close>

datatype number = Finite rat | NaN | PosInfinity | NegInfinity

text \<open>\<^verbatim>\<open>a / b\<close> for integer-valued operands (the divisor \<open>0\<close> is \<open>+0\<close>).\<close>

definition js_divide :: "int \<Rightarrow> int \<Rightarrow> number" where
  "js_divide a b =
     (if b = 0 then (if a = 0 then NaN else if 0 < a then PosInfinity else NegInfinity)
      else Finite (of_int a / of_int b))"

text \<open>\<^verbatim>\<open>x * d\<close> for an integer-valued \<open>d\<close>.\<close>

fun js_times :: "number \<Rightarrow> int \<Rightarrow> number" where
  "js_times (Finite q) d = Finite (q * of_int d)"
| "js_times NaN d = NaN"
| "js_times PosInfinity d = (if d = 0 then NaN else if 0 < d then PosInfinity else NegInfinity)"
| "js_times NegInfinity d = (if d = 0 then NaN else if 0 < d then NegInfinity else PosInfinity)"

text \<open>\<^verbatim>\<open>a + x\<close> for an integer-valued \<open>a\<close>.\<close>

fun js_plus :: "int \<Rightarrow> number \<Rightarrow> number" where
  "js_plus a (Finite q) = Finite (of_int a + q)"
| "js_plus a NaN = NaN"
| "js_plus a PosInfinity = PosInfinity"
| "js_plus a NegInfinity = NegInfinity"

text \<open>
  \<^verbatim>\<open>ToIntegerOrInfinity\<close> of ECMAScript: \<^verbatim>\<open>NaN\<close> becomes \<open>0\<close>, a finite value is
  truncated towards zero, the infinities stay.
\<close>

datatype integer_or_infinity = Integral int | PlusInfinity | MinusInfinity

fun ToIntegerOrInfinity :: "number \<Rightarrow> integer_or_infinity" where
  "ToIntegerOrInfinity (Finite q) = Integral (if 0 \<le> q then \<lfloor>q\<rfloor> else \<lceil>q\<rceil>)"
| "ToIntegerOrInfinity NaN = Integral 0"
| "ToIntegerOrInfinity PosInfinity = PlusInfinity"
| "ToIntegerOrInfinity NegInfinity = MinusInfinity"

subsection \<open>Typed arrays\<close>

text \<open>
  \<^verbatim>\<open>%TypedArray%.prototype.subarray(begin, end)\<close> on the bytes \<open>src\<close>: each bound is
  converted with \<^verbatim>\<open>ToIntegerOrInfinity\<close>, a negative bound counts from the end, and both
  are clamped to \<open>[0, length src]\<close>.
\<close>

fun relative_index :: "nat \<Rightarrow> integer_or_infinity \<Rightarrow> nat" where
  "relative_index srcLength MinusInfinity = 0"
| "relative_index srcLength PlusInfinity = srcLength"
| "relative_index srcLength (Integral k) =
     (if k < 0 then nat (max (int srcLength + k) 0) else nat (min k (int srcLength)))"

definition subarray :: "byte list \<Rightarrow> number \<Rightarrow> number \<Rightarrow> byte list" where
  "subarray src begin end =
     (let beginIndex = relative_index (length src) (ToIntegerOrInfinity begin);
          endIndex = relative_index (length src) (ToIntegerOrInfinity end);
          newLength = endIndex - beginIndex
      in take newLength (drop beginIndex src))"

text \<open>
  \<^verbatim>\<open>target.set(source, offset)\<close>: throws \<^verbatim>\<open>RangeError\<close> when the offset is negative
  or the source does not fit, and writes nothing then; otherwise the source replaces the
  bytes of the target from \<open>offset\<close> on.
\<close>

definition overwrite :: "byte list \<Rightarrow> nat \<Rightarrow> byte list \<Rightarrow> byte list" where
  "overwrite target k source = take k target @ source @ drop (k + length source) target"

definition typed_array_set :: "byte list \<Rightarrow> byte list \<Rightarrow> number \<Rightarrow> exn + byte list" where
  "typed_array_set target source offset =
     (case ToIntegerOrInfinity offset of
        MinusInfinity \<Rightarrow> Inl RangeError
      | PlusInfinity \<Rightarrow> Inl RangeError
      | Integral k \<Rightarrow>
          if k < 0 then Inl RangeError
          else if int (length target) < int (length source) + k then Inl RangeError
          else Inr (overwrite target (nat k) source))"

section \<open>The engine behind \<^verbatim>\<open>IWasm\<close>\<close>

text \<open>
  The coding engine is the WebAssembly instance whose exports the interface
  \<^verbatim>\<open>IWasm\<close> declares; its code is not part of the adapter.  Its state is the linear
  memory (\<^verbatim>\<open>exports.memory.buffer\<close>: the identity of the current \<^verbatim>\<open>ArrayBuffer\<close>,
  which changes when the memory grows, and its bytes) and whatever else the instance
  keeps.  Each export is a function of its arguments and that state; it returns
  normally with a new state or throws (a trap of the engine).
\<close>

record 'a engine =
  memory_buffer :: nat
  memory_bytes :: "byte list"
  internals :: 'a

record 'a IWasm =
  exports_encode :: "int \<Rightarrow> int \<Rightarrow> int \<Rightarrow> int \<Rightarrow> 'a engine \<Rightarrow> exn + int \<times> 'a engine"
  exports_reconstruct ::
    "int \<Rightarrow> int \<Rightarrow> int \<Rightarrow> int \<Rightarrow> int \<Rightarrow> int \<Rightarrow> 'a engine \<Rightarrow> exn + int \<times> 'a engine"
  wbindgen_malloc :: "int \<Rightarrow> 'a engine \<Rightarrow> exn + int \<times> 'a engine"
  wbindgen_free :: "int \<Rightarrow> int \<Rightarrow> 'a engine \<Rightarrow> exn + 'a engine"

text \<open>
  The \<open>n\<close> bytes of the memory from \<open>pointer\<close> on, and the number of bytes that the data
  shards take in a buffer of \<open>n\<close> bytes whose length is a multiple of the shard count
  (\<open>shardSize \<cdot> dataShards\<close> with \<open>shardSize = n / (d + p)\<close>).
\<close>

definition region :: "int \<Rightarrow> int \<Rightarrow> 'a engine \<Rightarrow> byte list" where
  "region pointer n w = take (nat n) (drop (nat pointer) (memory_bytes w))"


text \<open>The calls that returned, in order: the record of what the adapter asked of the engine.\<close>

datatype call =
    is_Malloc: Malloc int int
  | is_Free: Free int int
  | Encode int int int int int
  | Reconstruct int int int int int int int

section \<open>The handle: class \<^verbatim>\<open>ReedSolomonErasure\<close>\<close>

text \<open>
  A \<^verbatim>\<open>Uint8Array\<close> over the engine's memory is an object of its own (\<open>view_id\<close>) with a
  \<^verbatim>\<open>buffer\<close> property, the identity of the \<^verbatim>\<open>ArrayBuffer\<close> behind it (\<open>view_buffer\<close>).
\<close>

record Uint8Array =
  view_id :: nat
  view_buffer :: nat

text \<open>
  A handle holds the exports (\<^verbatim>\<open>private readonly exports\<close>), the state of the instance
  they belong to, and \<^verbatim>\<open>memoryCache\<close>.  \<open>views_made\<close> counts the \<^verbatim>\<open>Uint8Array\<close> objects
  constructed so far, which gives each new view its identity; \<open>calls\<close> is the record of
  the engine calls that returned.
\<close>

record 'a ReedSolomonErasure =
  exports :: "'a IWasm"
  wasm :: "'a engine"
  memoryCache :: "Uint8Array option"
  views_made :: nat
  calls :: "call list"

definition RESULT_OK :: int where
  "RESULT_OK = 0"

text \<open>\<^verbatim>\<open>getUint8Memory\<close> (index.ts 372-382).\<close>

definition getUint8Memory :: "'a ReedSolomonErasure \<Rightarrow> Uint8Array \<times> 'a ReedSolomonErasure" where
  "getUint8Memory this =
     (case memoryCache this of
        None \<Rightarrow>
          (let fresh = \<lparr>view_id = views_made this, view_buffer = memory_buffer (wasm this)\<rparr>
           in (fresh, this\<lparr>memoryCache := Some fresh, views_made := Suc (views_made this)\<rparr>))
      | Some cachegetUint8Memory \<Rightarrow>
          if view_buffer cachegetUint8Memory \<noteq> memory_buffer (wasm this) then
            (let fresh = \<lparr>view_id = views_made this, view_buffer = memory_buffer (wasm this)\<rparr>
             in (fresh, this\<lparr>memoryCache := Some fresh, views_made := Suc (views_made this)\<rparr>))
          else (cachegetUint8Memory, this))"

text \<open>
  The bytes a view gives access to: those of the engine's memory when the view is over
  the current buffer; a view over a buffer that the engine has replaced is detached and
  has length \<open>0\<close>.
\<close>

definition view_bytes :: "Uint8Array \<Rightarrow> 'a ReedSolomonErasure \<Rightarrow> byte list" where
  "view_bytes view this =
     (if view_buffer view = memory_buffer (wasm this) then memory_bytes (wasm this) else [])"

text \<open>
  \<^verbatim>\<open>view.set(source, offset)\<close> on a view of the engine's memory; on a detached view it
  throws \<^verbatim>\<open>TypeError\<close>.
\<close>

definition view_set ::
  "Uint8Array \<Rightarrow> byte list \<Rightarrow> number \<Rightarrow> 'a ReedSolomonErasure \<Rightarrow> exn + 'a ReedSolomonErasure" where
  "view_set view source offset this =
     (if view_buffer view = memory_buffer (wasm this) then
        (case typed_array_set (memory_bytes (wasm this)) source offset of
           Inl e \<Rightarrow> Inl e
         | Inr bytes \<Rightarrow> Inr (this\<lparr>wasm := (wasm this)\<lparr>memory_bytes := bytes\<rparr>\<rparr>))
      else Inl TypeError)"

subsection \<open>Calls of the exports\<close>

definition call_malloc :: "int \<Rightarrow> 'a ReedSolomonErasure \<Rightarrow> exn + int \<times> 'a ReedSolomonErasure" where
  "call_malloc n this =
     (case wbindgen_malloc (exports this) n (wasm this) of
        Inl e \<Rightarrow> Inl e
      | Inr (pointer, w) \<Rightarrow> Inr (pointer, this\<lparr>wasm := w, calls := calls this @ [Malloc n pointer]\<rparr>))"

definition call_free :: "int \<Rightarrow> int \<Rightarrow> 'a ReedSolomonErasure \<Rightarrow> exn + 'a ReedSolomonErasure" where
  "call_free pointer n this =
     (case wbindgen_free (exports this) pointer n (wasm this) of
        Inl e \<Rightarrow> Inl e
      | Inr w \<Rightarrow> Inr (this\<lparr>wasm := w, calls := calls this @ [Free pointer n]\<rparr>))"

definition call_encode ::
  "int \<Rightarrow> int \<Rightarrow> int \<Rightarrow> int \<Rightarrow> 'a ReedSolomonErasure \<Rightarrow> exn + int \<times> 'a ReedSolomonErasure" where
  "call_encode pointer n dataShards parityShards this =
     (case exports_encode (exports this) pointer n dataShards parityShards (wasm this) of
        Inl e \<Rightarrow> Inl e
      | Inr (result, w) \<Rightarrow>
          Inr (result, this\<lparr>wasm := w,
                 calls := calls this @ [Encode pointer n dataShards parityShards result]\<rparr>))"

definition call_reconstruct ::
  "int \<Rightarrow> int \<Rightarrow> int \<Rightarrow> int \<Rightarrow> int \<Rightarrow> int \<Rightarrow> 'a ReedSolomonErasure
     \<Rightarrow> exn + int \<times> 'a ReedSolomonErasure" where
  "call_reconstruct pointer n dataShards parityShards e f this =
     (case exports_reconstruct (exports this) pointer n dataShards parityShards e f (wasm this) of
        Inl x \<Rightarrow> Inl x
      | Inr (result, w) \<Rightarrow>
          Inr (result, this\<lparr>wasm := w,
                 calls := calls this @ [Reconstruct pointer n dataShards parityShards e f result]\<rparr>))"

subsection \<open>\<^verbatim>\<open>encode\<close> (index.ts 244-264)\<close>

text \<open>
  The result of a marshalling call: the returned code or the exception thrown, the
  caller's buffer as the call leaves it, and the handle afterwards.
\<close>

type_synonym 'a outcome = "(exn + int) \<times> byte list \<times> 'a ReedSolomonErasure"

definition release_and_return ::
  "int \<Rightarrow> int \<Rightarrow> int \<Rightarrow> byte list \<Rightarrow> 'a ReedSolomonErasure \<Rightarrow> 'a outcome" where
  "release_and_return shardsPointer shardsLength result shards this =
     (case call_free shardsPointer shardsLength this of
        Inl e \<Rightarrow> (Inl e, shards, this)
      | Inr this' \<Rightarrow> (Inr result, shards, this'))"

definition encode :: "'a ReedSolomonErasure \<Rightarrow> byte list \<Rightarrow> int \<Rightarrow> int \<Rightarrow> 'a outcome" where
  "encode this shards dataShards parityShards =
     (let shardsLength = int (length shards) in
      case call_malloc shardsLength this of
        Inl e \<Rightarrow> (Inl e, shards, this)
      | Inr (shardsPointer, this1) \<Rightarrow>
          (let (view, this2) = getUint8Memory this1 in
           case view_set view shards (Finite (of_int shardsPointer)) this2 of
             Inl e \<Rightarrow> (Inl e, shards, this2)
           | Inr this3 \<Rightarrow>
               (let shardSize = js_divide shardsLength (dataShards + parityShards) in
                case call_encode shardsPointer shardsLength dataShards parityShards this3 of
                  Inl e \<Rightarrow> (Inl e, shards, this3)
                | Inr (result, this4) \<Rightarrow>
                    if result = RESULT_OK then
                      (let (view', this5) = getUint8Memory this4 in
                       case typed_array_set shards
                              (subarray (view_bytes view' this5)
                                 (js_plus shardsPointer (js_times shardSize dataShards))
                                 (Finite (of_int (shardsPointer + shardsLength))))
                              (js_times shardSize dataShards) of
                         Inl e \<Rightarrow> (Inl e, shards, this5)
                       | Inr shards' \<Rightarrow>
                           release_and_return shardsPointer shardsLength result shards' this5)
                    else release_and_return shardsPointer shardsLength result shards this4)))"

subsection \<open>\<^verbatim>\<open>reconstruct\<close> (index.ts 292-326)\<close>

text \<open>
  Besides the code and the shard buffer, the result of \<open>reconstruct\<close> carries the
  caller's \<^verbatim>\<open>shardsAvailable\<close> array as the call leaves it.  The source reads it twice
  (\<^verbatim>\<open>.length\<close>, \<^verbatim>\<open>.map\<close>, which builds a new array) and never assigns to it.
\<close>

type_synonym 'a outcome2 = "(exn + int) \<times> byte list \<times> bool list \<times> 'a ReedSolomonErasure"

definition release_both_and_return ::
  "int \<Rightarrow> int \<Rightarrow> int \<Rightarrow> int \<Rightarrow> int \<Rightarrow> byte list \<Rightarrow> bool list \<Rightarrow> 'a ReedSolomonErasure
     \<Rightarrow> 'a outcome2" where
  "release_both_and_return shardsPointer shardsLength shardsAvailablePointer
       shardsAvailableLength result shards shardsAvailable this =
     (case call_free shardsPointer shardsLength this of
        Inl e \<Rightarrow> (Inl e, shards, shardsAvailable, this)
      | Inr this' \<Rightarrow>
          (case call_free shardsAvailablePointer shardsAvailableLength this' of
             Inl e \<Rightarrow> (Inl e, shards, shardsAvailable, this')
           | Inr this'' \<Rightarrow> (Inr result, shards, shardsAvailable, this'')))"

definition reconstruct ::
  "'a ReedSolomonErasure \<Rightarrow> byte list \<Rightarrow> int \<Rightarrow> int \<Rightarrow> bool list \<Rightarrow> 'a outcome2" where
  "reconstruct this shards dataShards parityShards shardsAvailable =
     (let shardsLength = int (length shards) in
      case call_malloc shardsLength this of
        Inl e \<Rightarrow> (Inl e, shards, shardsAvailable, this)
      | Inr (shardsPointer, this1) \<Rightarrow>
          (let (view, this2) = getUint8Memory this1 in
           case view_set view shards (Finite (of_int shardsPointer)) this2 of
             Inl e \<Rightarrow> (Inl e, shards, shardsAvailable, this2)
           | Inr this3 \<Rightarrow>
               (let shardsAvailableLength = int (length shardsAvailable) in
                case call_malloc shardsAvailableLength this3 of
                  Inl e \<Rightarrow> (Inl e, shards, shardsAvailable, this3)
                | Inr (shardsAvailablePointer, this4) \<Rightarrow>
                    (let (view', this5) = getUint8Memory this4 in
                     case view_set view' (map (\<lambda>value. if value then 1 else 0) shardsAvailable)
                            (Finite (of_int shardsAvailablePointer)) this5 of
                       Inl e \<Rightarrow> (Inl e, shards, shardsAvailable, this5)
                     | Inr this6 \<Rightarrow>
                         (let shardSize = js_divide shardsLength (dataShards + parityShards) in
                          case call_reconstruct shardsPointer shardsLength dataShards parityShards
                                 shardsAvailablePointer shardsAvailableLength this6 of
                            Inl e \<Rightarrow> (Inl e, shards, shardsAvailable, this6)
                          | Inr (result, this7) \<Rightarrow>
                              if result = RESULT_OK then
                                (let (view'', this8) = getUint8Memory this7 in
                                 case typed_array_set shards
                                        (subarray (view_bytes view'' this8)
                                           (Finite (of_int shardsPointer))
                                           (js_plus shardsPointer (js_times shardSize dataShards)))
                                        (Finite 0) of
                                   Inl e \<Rightarrow> (Inl e, shards, shardsAvailable, this8)
                                 | Inr shards' \<Rightarrow>
                                     release_both_and_return shardsPointer shardsLength
                                       shardsAvailablePointer shardsAvailableLength result
                                       shards' shardsAvailable this8)
                              else
                                release_both_and_return shardsPointer shardsLength
                                  shardsAvailablePointer shardsAvailableLength result
                                  shards shardsAvailable this7)))))"

subsection \<open>Regions acquired and released\<close>

text \<open>
  The calls a marshalling call added to the record, and how many of them are returns of
  \<^verbatim>\<open>__wbindgen_malloc\<close> and of \<^verbatim>\<open>__wbindgen_free\<close>.
\<close>

definition calls_since :: "'a ReedSolomonErasure \<Rightarrow> 'a ReedSolomonErasure \<Rightarrow> call list" where
  "calls_since before after = drop (length (calls before)) (calls after)"

definition acquired :: "call list \<Rightarrow> nat" where
  "acquired cs = length (filter is_Malloc cs)"

definition released :: "call list \<Rightarrow> nat" where
  "released cs = length (filter is_Free cs)"

subsection \<open>\<^verbatim>\<open>getResultMessage\<close> (index.ts 334-352)\<close>





section \<open>Instantiation\<close>

text \<open>
  What the module reads from its host: whether \<^verbatim>\<open>window\<close> and \<^verbatim>\<open>self\<close> are defined
  when the module is loaded, \<^verbatim>\<open>__dirname\<close>, the file system behind
  \<^verbatim>\<open>fs.readFileSync\<close>, and \<^verbatim>\<open>WebAssembly\<close> (compiling and instantiating a binary gives
  the exports and the initial state of the instance, or throws).
\<close>

record 'a host =
  window_defined :: bool
  self_defined :: bool
  dirname :: string
  readFileSync :: "string \<Rightarrow> exn + byte list"
  WebAssembly_instantiate :: "byte list \<Rightarrow> exn + 'a IWasm \<times> 'a engine"

definition isBrowser :: "'a host \<Rightarrow> bool" where
  "isBrowser host = (window_defined host \<or> self_defined host)"

definition loadWasmBytesSyncNode :: "'a host \<Rightarrow> string \<Rightarrow> exn + byte list" where
  "loadWasmBytesSyncNode host wasmPath = readFileSync host wasmPath"

text \<open>The private constructor: a new handle has \<^verbatim>\<open>memoryCache = null\<close>.\<close>

definition new_ReedSolomonErasure :: "'a IWasm \<Rightarrow> 'a engine \<Rightarrow> 'a ReedSolomonErasure" where
  "new_ReedSolomonErasure ex w =
     \<lparr>exports = ex, wasm = w, memoryCache = None, views_made = 0, calls = []\<rparr>"

definition fromBytes :: "'a host \<Rightarrow> byte list \<Rightarrow> exn + 'a ReedSolomonErasure" where
  "fromBytes host bytes =
     (case WebAssembly_instantiate host bytes of
        Inl e \<Rightarrow> Inl e
      | Inr (ex, w) \<Rightarrow> Inr (new_ReedSolomonErasure ex w))"

definition fromCurrentDirectorySync :: "'a host \<Rightarrow> exn + 'a ReedSolomonErasure" where
  "fromCurrentDirectorySync host =
     (if isBrowser host then
        Inl (Error (''fromCurrentDirectorySync() is not available in browser. '' @
                    ''Use fromCurrentDirectory() or fromResponse() instead.''))
      else
        (case loadWasmBytesSyncNode host (dirname host @ ''/reed_solomon_erasure_bg.wasm'') of
           Inl e \<Rightarrow> Inl e
         | Inr wasmBytes \<Rightarrow> fromBytes host wasmBytes))"

section \<open>The singleton: \<^verbatim>\<open>getInstance\<close> and \<^verbatim>\<open>clearInstance\<close> (index.ts 26-28, 77-110)\<close>

text \<open>
  \<^verbatim>\<open>getInstance\<close> is an \<^verbatim>\<open>async\<close> function over the two module variables
  \<^verbatim>\<open>cachedInstance\<close> and \<^verbatim>\<open>loadingPromise\<close>.  JavaScript runs it without interruption
  up to its \<^verbatim>\<open>await\<close>, and runs the rest when the awaited promise settles.  A promise
  is a number; \<open>settled\<close> gives its state (\<open>None\<close> while pending).  \<open>awaiting\<close> holds
  the calls suspended at \<^verbatim>\<open>await loadingPromise\<close> (the awaited promise and the call's
  own promise), \<open>following\<close> the promises of the calls that did
  \<^verbatim>\<open>return loadingPromise\<close>, and \<open>instantiations\<close> the engine loads started so far.
\<close>

datatype 'h settlement = Fulfilled 'h | Rejected exn

datatype loader = FromResponse string | FromFile string | FromCurrentDirectory

record 'h module_state =
  cachedInstance :: "'h option"
  loadingPromise :: "nat option"
  settled :: "nat \<Rightarrow> 'h settlement option"
  promises_made :: nat
  instantiations :: "(nat \<times> loader) list"
  awaiting :: "(nat \<times> nat) list"
  following :: "(nat \<times> nat) list"

definition module_loaded :: "'h module_state" where
  "module_loaded =
     \<lparr>cachedInstance = None, loadingPromise = None, settled = (\<lambda>_. None), promises_made = 0,
      instantiations = [], awaiting = [], following = []\<rparr>"

text \<open>The loader chosen at lines 86-96; \<^verbatim>\<open>if (wasmUrl)\<close> is false for the empty string too.\<close>

definition choose_loader :: "bool \<Rightarrow> string option \<Rightarrow> loader" where
  "choose_loader is_browser wasmUrl =
     (case wasmUrl of
        None \<Rightarrow> FromCurrentDirectory
      | Some url \<Rightarrow>
          if url = [] then FromCurrentDirectory
          else if is_browser then FromResponse url else FromFile url)"

text \<open>A call of \<^verbatim>\<open>getInstance\<close> up to its suspension; it returns the call's promise.\<close>

definition getInstance :: "bool \<Rightarrow> string option \<Rightarrow> 'h module_state \<Rightarrow> nat \<times> 'h module_state" where
  "getInstance is_browser wasmUrl m =
     (let own = promises_made m;
          m0 = m\<lparr>promises_made := Suc own\<rparr>
      in case cachedInstance m0 of
           Some h \<Rightarrow> (own, m0\<lparr>settled := (settled m0)(own \<mapsto> Fulfilled h)\<rparr>)
         | None \<Rightarrow>
             (case loadingPromise m0 of
                Some l \<Rightarrow>
                  (case settled m0 l of
                     Some r \<Rightarrow> (own, m0\<lparr>settled := (settled m0)(own \<mapsto> r)\<rparr>)
                   | None \<Rightarrow> (own, m0\<lparr>following := following m0 @ [(l, own)]\<rparr>))
              | None \<Rightarrow>
                  (let l = promises_made m0
                   in (own, m0\<lparr>promises_made := Suc l,
                              loadingPromise := Some l,
                              instantiations :=
                                instantiations m0 @ [(l, choose_loader is_browser wasmUrl)],
                              awaiting := awaiting m0 @ [(l, own)]\<rparr>))))"

text \<open>
  The rest of a suspended call (lines 98-101) once the awaited promise has settled with
  \<open>r\<close>: a rejection is thrown by the \<^verbatim>\<open>await\<close> and ends the call at once.
\<close>

definition resume :: "'h settlement \<Rightarrow> 'h module_state \<Rightarrow> nat \<Rightarrow> 'h module_state" where
  "resume r m own =
     (case r of
        Fulfilled h \<Rightarrow>
          m\<lparr>cachedInstance := Some h, loadingPromise := None,
            settled := (settled m)(own \<mapsto> Fulfilled h)\<rparr>
      | Rejected e \<Rightarrow> m\<lparr>settled := (settled m)(own \<mapsto> Rejected e)\<rparr>)"

text \<open>
  The instantiation behind promise \<open>l\<close> ends with \<open>r\<close>: the calls awaiting \<open>l\<close> resume,
  and the promises that follow \<open>l\<close> settle as \<open>l\<close> did.
\<close>

definition settle :: "nat \<Rightarrow> 'h settlement \<Rightarrow> 'h module_state \<Rightarrow> 'h module_state" where
  "settle l r m =
     (if settled m l \<noteq> None then m
      else
        let m1 = m\<lparr>settled := (settled m)(l \<mapsto> r)\<rparr>;
            m2 = foldl (resume r) m1 (map snd (filter (\<lambda>w. fst w = l) (awaiting m1)));
            m3 = foldl (\<lambda>x own. x\<lparr>settled := (settled x)(own \<mapsto> r)\<rparr>) m2
                   (map snd (filter (\<lambda>w. fst w = l) (following m2)))
        in m3\<lparr>awaiting := filter (\<lambda>w. fst w \<noteq> l) (awaiting m3),
              following := filter (\<lambda>w. fst w \<noteq> l) (following m3)\<rparr>)"

definition clearInstance :: "'h module_state \<Rightarrow> 'h module_state" where
  "clearInstance m = m\<lparr>cachedInstance := None, loadingPromise := None\<rparr>"

section \<open>What the specification says of the engine's \<open>encode\<close>\<close>




section \<open>Test doubles\<close>

text \<open>
  A small engine to run the adapter against: a bump allocator that grows the memory
  when a request does not fit (a new buffer identity, as \<^verbatim>\<open>memory.grow\<close> gives), and
  an erasure code with one parity shard, the exclusive or of the data shards.
\<close>

definition xor_bytes :: "byte list \<Rightarrow> byte list \<Rightarrow> byte list" where
  "xor_bytes xs ys = map (\<lambda>(x, y). x XOR y) (zip xs ys)"

definition shard_at :: "nat \<Rightarrow> byte list \<Rightarrow> nat \<Rightarrow> byte list" where
  "shard_at shardSize bytes i = take shardSize (drop (i * shardSize) bytes)"

definition xor_shards :: "nat \<Rightarrow> byte list \<Rightarrow> nat list \<Rightarrow> byte list" where
  "xor_shards shardSize bytes indices = foldr xor_bytes (map (shard_at shardSize bytes) indices) (replicate shardSize 0)"

definition stub_malloc :: "int \<Rightarrow> nat engine \<Rightarrow> exn + int \<times> nat engine" where
  "stub_malloc n w =
     (if n < 0 then Inl (RuntimeError ''unreachable'')
      else
        let pointer = internals w;
            top = pointer + nat n
        in if top \<le> length (memory_bytes w) then Inr (int pointer, w\<lparr>internals := top\<rparr>)
           else Inr (int pointer,
                  w\<lparr>memory_buffer := Suc (memory_buffer w),
                    memory_bytes := memory_bytes w @ replicate (top - length (memory_bytes w)) 0,
                    internals := top\<rparr>))"

definition stub_free :: "int \<Rightarrow> int \<Rightarrow> nat engine \<Rightarrow> exn + nat engine" where
  "stub_free pointer n w = Inr w"

definition stub_check :: "int \<Rightarrow> int \<Rightarrow> int \<Rightarrow> int" where
  "stub_check n d p =
     (if d < 1 then 3
      else if p < 1 then 5
      else if 1 < p then 6
      else if n mod (d + p) \<noteq> 0 then 9
      else if n = 0 then 11
      else 0)"

definition stub_encode :: "int \<Rightarrow> int \<Rightarrow> int \<Rightarrow> int \<Rightarrow> nat engine \<Rightarrow> exn + int \<times> nat engine" where
  "stub_encode pointer n d p w =
     (if stub_check n d p \<noteq> 0 then Inr (stub_check n d p, w)
      else
        let shardSize = nat (n div (d + p));
            parity = xor_shards shardSize (region pointer n w) [0..<nat d]
        in Inr (0, w\<lparr>memory_bytes :=
                       overwrite (memory_bytes w) (nat pointer + shardSize * nat d) parity\<rparr>))"

definition stub_reconstruct ::
  "int \<Rightarrow> int \<Rightarrow> int \<Rightarrow> int \<Rightarrow> int \<Rightarrow> int \<Rightarrow> nat engine \<Rightarrow> exn + int \<times> nat engine" where
  "stub_reconstruct pointer n d p e f w =
     (if stub_check n d p \<noteq> 0 then Inr (stub_check n d p, w)
      else if f \<noteq> d + p then Inr (12, w)
      else
        let shardSize = nat (n div (d + p));
            flags = region e f w;
            missing = filter (\<lambda>i. flags ! i = 0) [0..<nat (d + p)]
        in case missing of
             [] \<Rightarrow> Inr (0, w)
           | [i] \<Rightarrow>
               if i = nat d then Inr (0, w)
               else Inr (0, w\<lparr>memory_bytes :=
                              overwrite (memory_bytes w) (nat pointer + i * shardSize)
                                (xor_shards shardSize (region pointer n w)
                                   (filter (\<lambda>j. j \<noteq> i) [0..<Suc (nat d)]))\<rparr>)
           | _ \<Rightarrow> Inr (10, w))"

definition xor_engine :: "nat IWasm" where
  "xor_engine =
     \<lparr>exports_encode = stub_encode, exports_reconstruct = stub_reconstruct,
      wbindgen_malloc = stub_malloc, wbindgen_free = stub_free\<rparr>"

definition empty_memory :: "nat engine" where
  "empty_memory = \<lparr>memory_buffer = 0, memory_bytes = [], internals = 0\<rparr>"

definition stub_handle :: "nat ReedSolomonErasure" where
  "stub_handle = new_ReedSolomonErasure xor_engine empty_memory"

text \<open>
  An engine whose allocator hands out its current offset without growing the memory:
  with four bytes of memory and the offset at two, a region of four bytes does not fit.
\<close>

definition cramped_handle :: "nat ReedSolomonErasure" where
  "cramped_handle =
     new_ReedSolomonErasure
       (xor_engine\<lparr>wbindgen_malloc := \<lambda>n w. Inr (int (internals w), w)\<rparr>)
       \<lparr>memory_buffer = 0, memory_bytes = [0, 0, 0, 0], internals = 2\<rparr>"

text \<open>A Node.js host with the binary in the package directory, and a browser.\<close>

definition node_host :: "nat host" where
  "node_host =
     \<lparr>window_defined = False, self_defined = False, dirname = ''/pkg/dist'',
      readFileSync = (\<lambda>path. if path = ''/pkg/dist/reed_solomon_erasure_bg.wasm''
                              then Inr [0, 97, 115, 109] else Inl (Error ''ENOENT'')),
      WebAssembly_instantiate = (\<lambda>bytes. if bytes = [0, 97, 115, 109]
                              then Inr (xor_engine, empty_memory) else Inl (Error ''CompileError''))\<rparr>"

definition browser_host :: "nat host" where
  "browser_host = node_host\<lparr>window_defined := True\<rparr>"

section \<open>The memory view\<close>

lemma getUint8Memory_buffer:
  assumes "getUint8Memory h = (v, h')"
  shows "view_buffer v = memory_buffer (wasm h')" and "wasm h' = wasm h"
    and "calls h' = calls h" and "exports h' = exports h"
  using assms by (auto simp: getUint8Memory_def Let_def split: option.splits if_splits)

text \<open>
  C6.  Every call of \<open>getUint8Memory\<close> returns a view whose buffer is the engine's
  current buffer, and that view is the cached one afterwards.  When nothing is cached or
  the cached view is over another buffer, the view is a newly constructed one; otherwise
  the cached view is returned and the handle is unchanged.  The accessor has no
  exception among its results.
\<close>

theorem getUint8Memory_current_buffer:
  "view_buffer (fst (getUint8Memory this)) = memory_buffer (wasm this) \<and>
   memoryCache (snd (getUint8Memory this)) = Some (fst (getUint8Memory this)) \<and>
   wasm (snd (getUint8Memory this)) = wasm this \<and>
   (case memoryCache this of
      None \<Rightarrow>
        fst (getUint8Memory this) =
          \<lparr>view_id = views_made this, view_buffer = memory_buffer (wasm this)\<rparr>
    | Some cached \<Rightarrow>
        if view_buffer cached \<noteq> memory_buffer (wasm this) then
          fst (getUint8Memory this) =
            \<lparr>view_id = views_made this, view_buffer = memory_buffer (wasm this)\<rparr>
        else getUint8Memory this = (cached, this))"
  by (simp add: getUint8Memory_def Let_def split: option.splits)

theorem getUint8Memory_current_buffer_witness:
  "getUint8Memory (stub_handle\<lparr>memoryCache := Some \<lparr>view_id = 0, view_buffer = 7\<rparr>, views_made := 1\<rparr>)
     = (\<lparr>view_id = 1, view_buffer = 0\<rparr>,
        stub_handle\<lparr>memoryCache := Some \<lparr>view_id = 1, view_buffer = 0\<rparr>, views_made := 2\<rparr>) \<and>
   getUint8Memory (stub_handle\<lparr>memoryCache := Some \<lparr>view_id = 0, view_buffer = 0\<rparr>, views_made := 1\<rparr>)
     = (\<lparr>view_id = 0, view_buffer = 0\<rparr>,
        stub_handle\<lparr>memoryCache := Some \<lparr>view_id = 0, view_buffer = 0\<rparr>, views_made := 1\<rparr>)"
  using getUint8Memory_current_buffer
    [of "stub_handle\<lparr>memoryCache := Some \<lparr>view_id = 0, view_buffer = 0\<rparr>, views_made := 1\<rparr>"]
  by (simp add: getUint8Memory_def Let_def stub_handle_def new_ReedSolomonErasure_def
      empty_memory_def eval_nat_numeral)

section \<open>Result messages\<close>





section \<open>Synchronous instantiation\<close>

text \<open>
  C10.  In a browser (\<^verbatim>\<open>window\<close> or \<^verbatim>\<open>self\<close> defined) \<open>fromCurrentDirectorySync\<close>
  throws an \<^verbatim>\<open>Error\<close>, whatever the file system and \<^verbatim>\<open>WebAssembly\<close> would give, so no
  handle is constructed.  Otherwise it reads \<^verbatim>\<open>reed_solomon_erasure_bg.wasm\<close> in
  \<^verbatim>\<open>__dirname\<close>; when the read and the instantiation succeed it returns a new handle
  on the instance (no cached view yet), and when one of them throws, so does the call.
\<close>

theorem fromCurrentDirectorySync_by_environment:
  "(isBrowser host \<longrightarrow>
      (\<exists>message. fromCurrentDirectorySync (host\<lparr>readFileSync := f, WebAssembly_instantiate := g\<rparr>)
         = Inl (Error message))) \<and>
   (\<not> isBrowser host \<longrightarrow>
      (case readFileSync host (dirname host @ ''/reed_solomon_erasure_bg.wasm'') of
         Inl e \<Rightarrow> fromCurrentDirectorySync host = Inl e
       | Inr wasmBytes \<Rightarrow>
           (case WebAssembly_instantiate host wasmBytes of
              Inl e \<Rightarrow> fromCurrentDirectorySync host = Inl e
            | Inr (ex, w) \<Rightarrow>
                fromCurrentDirectorySync host =
                  Inr \<lparr>exports = ex, wasm = w, memoryCache = None, views_made = 0, calls = []\<rparr>)))"
  by (simp add: fromCurrentDirectorySync_def isBrowser_def loadWasmBytesSyncNode_def
      fromBytes_def new_ReedSolomonErasure_def split: sum.splits prod.splits)

theorem fromCurrentDirectorySync_by_environment_witness:
  "isBrowser browser_host \<and> \<not> isBrowser node_host \<and>
   (\<exists>message. fromCurrentDirectorySync browser_host = Inl (Error message)) \<and>
   fromCurrentDirectorySync node_host = Inr stub_handle"
proof -
  have b: "isBrowser browser_host" and n: "\<not> isBrowser node_host"
    by (simp_all add: isBrowser_def browser_host_def node_host_def)
  have same: "browser_host\<lparr>readFileSync := readFileSync browser_host,
      WebAssembly_instantiate := WebAssembly_instantiate browser_host\<rparr> = browser_host"
    by simp
  from fromCurrentDirectorySync_by_environment
    [where host = browser_host and f = "readFileSync browser_host"
       and g = "WebAssembly_instantiate browser_host"] b
  have 1: "\<exists>message. fromCurrentDirectorySync browser_host = Inl (Error message)"
    unfolding same by blast
  from fromCurrentDirectorySync_by_environment[where host = node_host] n
  have 2: "fromCurrentDirectorySync node_host = Inr stub_handle"
    by (simp add: node_host_def stub_handle_def new_ReedSolomonErasure_def)
  from b n 1 2 show ?thesis by blast
qed

section \<open>Marshalling\<close>

lemma typed_array_set_fits:
  "0 \<le> k \<Longrightarrow> nat k + length source \<le> length target \<Longrightarrow>
   typed_array_set target source (Finite (of_int k)) = Inr (overwrite target (nat k) source)"
  by (auto simp: typed_array_set_def)









lemma view_set_keeps:
  "view_set v s off h = Inr h' \<Longrightarrow> calls h' = calls h \<and> exports h' = exports h"
  by (auto simp: view_set_def split: if_splits sum.splits)

lemma call_malloc_Inr:
  "call_malloc n h = Inr (pointer, h') \<Longrightarrow>
     calls h' = calls h @ [Malloc n pointer] \<and> exports h' = exports h"
  by (auto simp: call_malloc_def split: sum.splits)

lemma call_free_Inr:
  "call_free pointer n h = Inr h' \<Longrightarrow>
     calls h' = calls h @ [Free pointer n] \<and> exports h' = exports h"
  by (auto simp: call_free_def split: sum.splits)

lemma call_encode_Inr:
  "call_encode pointer n d p h = Inr (r, h') \<Longrightarrow>
     calls h' = calls h @ [Encode pointer n d p r] \<and> exports h' = exports h"
  by (auto simp: call_encode_def split: sum.splits)

lemma call_reconstruct_Inr:
  "call_reconstruct pointer n d p e f h = Inr (r, h') \<Longrightarrow>
     calls h' = calls h @ [Reconstruct pointer n d p e f r] \<and> exports h' = exports h"
  by (auto simp: call_reconstruct_def split: sum.splits)

lemma release_and_return_paths:
  "(\<exists>e. release_and_return pointer n r s h = (Inl e, s, h)) \<or>
   (\<exists>h'. release_and_return pointer n r s h = (Inr r, s, h') \<and>
          calls h' = calls h @ [Free pointer n])"
  by (cases "call_free pointer n h")
    (auto simp: release_and_return_def dest: call_free_Inr)

lemma encode_paths:
  "(\<exists>e. fst (encode h shards d p) = Inl e \<and>
        calls (snd (snd (encode h shards d p))) = calls h) \<or>
   (\<exists>e pointer. fst (encode h shards d p) = Inl e \<and>
        calls (snd (snd (encode h shards d p))) =
          calls h @ [Malloc (int (length shards)) pointer]) \<or>
   (\<exists>e pointer r. fst (encode h shards d p) = Inl e \<and>
        calls (snd (snd (encode h shards d p))) =
          calls h @ [Malloc (int (length shards)) pointer,
                     Encode pointer (int (length shards)) d p r]) \<or>
   (\<exists>pointer r. fst (encode h shards d p) = Inr r \<and>
        calls (snd (snd (encode h shards d p))) =
          calls h @ [Malloc (int (length shards)) pointer,
                     Encode pointer (int (length shards)) d p r,
                     Free pointer (int (length shards))])"
proof -
  let ?n = "int (length shards)"
  show ?thesis
  proof (cases "call_malloc ?n h")
  case (Inl e)
  then have "encode h shards d p = (Inl e, shards, h)"
    by (simp add: encode_def Let_def)
  then show ?thesis by simp
next
  case (Inr a)
  then obtain pointer h1 where m: "call_malloc ?n h = Inr (pointer, h1)" by (cases a) auto
  have c1: "calls h1 = calls h @ [Malloc ?n pointer]" using call_malloc_Inr[OF m] by simp
  obtain v h2 where g: "getUint8Memory h1 = (v, h2)" by force
  have c2: "calls h2 = calls h @ [Malloc ?n pointer]" using getUint8Memory_buffer(3)[OF g] c1 by simp
  show ?thesis
  proof (cases "view_set v shards (Finite (of_int pointer)) h2")
    case (Inl e)
    then have "encode h shards d p = (Inl e, shards, h2)"
      using m g by (simp add: encode_def Let_def)
    then show ?thesis using c2 by simp
  next
    case (Inr h3)
    have c3: "calls h3 = calls h @ [Malloc ?n pointer]" using view_set_keeps[OF Inr] c2 by simp
    show ?thesis
    proof (cases "call_encode pointer ?n d p h3")
      case (Inl e)
      then have "encode h shards d p = (Inl e, shards, h3)"
        using m g \<open>view_set v shards (Finite (of_int pointer)) h2 = Inr h3\<close>
        by (simp add: encode_def Let_def)
      then show ?thesis using c3 by simp
    next
      case (Inr b)
      then obtain r h4 where e: "call_encode pointer ?n d p h3 = Inr (r, h4)" by (cases b) auto
      have c4: "calls h4 = calls h @ [Malloc ?n pointer, Encode pointer ?n d p r]"
        using call_encode_Inr[OF e] c3 by simp
      obtain v' h5 where g': "getUint8Memory h4 = (v', h5)" by force
      have c5: "calls h5 = calls h @ [Malloc ?n pointer, Encode pointer ?n d p r]"
        using getUint8Memory_buffer(3)[OF g'] c4 by simp
      let ?copy = "typed_array_set shards
          (subarray (view_bytes v' h5)
             (js_plus pointer (js_times (js_divide ?n (d + p)) d))
             (Finite (of_int (pointer + ?n))))
          (js_times (js_divide ?n (d + p)) d)"
      have run: "encode h shards d p =
          (if r = RESULT_OK then
             (case ?copy of
                Inl e \<Rightarrow> (Inl e, shards, h5)
              | Inr shards' \<Rightarrow> release_and_return pointer ?n r shards' h5)
           else release_and_return pointer ?n r shards h4)"
        using m g \<open>view_set v shards (Finite (of_int pointer)) h2 = Inr h3\<close> e g'
        by (simp add: encode_def Let_def Let_def)
      show ?thesis
      proof (cases "r = RESULT_OK")
        case False
        then show ?thesis
          using run release_and_return_paths[of pointer ?n r shards h4] c4
          by auto
      next
        case True
        show ?thesis
        proof (cases ?copy)
          case (Inl e)
          then show ?thesis using run True c5 by auto
        next
          case (Inr shards')
          then show ?thesis
            using run True release_and_return_paths[of pointer ?n r shards' h5] c5
            by auto
        qed
      qed
    qed
  qed
qed
qed

lemma release_both_flags:
  "fst (snd (snd (release_both_and_return a b c d r s avail h))) = avail"
  by (simp add: release_both_and_return_def split: sum.splits)

lemma reconstruct_keeps_flags:
  "fst (snd (snd (reconstruct h shards d p avail))) = avail"
  by (simp add: reconstruct_def Let_def split_beta release_both_flags split: sum.splits)


lemma release_both_and_return_paths:
  "(\<exists>e. release_both_and_return pointer n apointer m r s avail h = (Inl e, s, avail, h)) \<or>
   (\<exists>e h'. release_both_and_return pointer n apointer m r s avail h = (Inl e, s, avail, h') \<and>
          calls h' = calls h @ [Free pointer n]) \<or>
   (\<exists>h'. release_both_and_return pointer n apointer m r s avail h = (Inr r, s, avail, h') \<and>
          calls h' = calls h @ [Free pointer n, Free apointer m])"
proof (cases "call_free pointer n h")
  case (Inl e)
  then show ?thesis by (simp add: release_both_and_return_def)
next
  case (Inr h')
  note f1 = Inr
  show ?thesis
  proof (cases "call_free apointer m h'")
    case (Inl e)
    then show ?thesis using f1 call_free_Inr[OF f1]
      by (simp add: release_both_and_return_def)
  next
    case (Inr h'')
    then show ?thesis using f1 call_free_Inr[OF f1] call_free_Inr[OF Inr]
      by (simp add: release_both_and_return_def)
  qed
qed

lemma reconstruct_paths:
  "(\<exists>e. fst (reconstruct h shards d p avail) = Inl e \<and>
        calls (snd (snd (snd (reconstruct h shards d p avail)))) = calls h) \<or>
   (\<exists>e pointer. fst (reconstruct h shards d p avail) = Inl e \<and>
        calls (snd (snd (snd (reconstruct h shards d p avail)))) =
          calls h @ [Malloc (int (length shards)) pointer]) \<or>
   (\<exists>e pointer apointer. fst (reconstruct h shards d p avail) = Inl e \<and>
        calls (snd (snd (snd (reconstruct h shards d p avail)))) =
          calls h @ [Malloc (int (length shards)) pointer,
                     Malloc (int (length avail)) apointer]) \<or>
   (\<exists>e pointer apointer r. fst (reconstruct h shards d p avail) = Inl e \<and>
        calls (snd (snd (snd (reconstruct h shards d p avail)))) =
          calls h @ [Malloc (int (length shards)) pointer,
                     Malloc (int (length avail)) apointer,
                     Reconstruct pointer (int (length shards)) d p apointer (int (length avail)) r]) \<or>
   (\<exists>e pointer apointer r. fst (reconstruct h shards d p avail) = Inl e \<and>
        calls (snd (snd (snd (reconstruct h shards d p avail)))) =
          calls h @ [Malloc (int (length shards)) pointer,
                     Malloc (int (length avail)) apointer,
                     Reconstruct pointer (int (length shards)) d p apointer (int (length avail)) r,
                     Free pointer (int (length shards))]) \<or>
   (\<exists>pointer apointer r. fst (reconstruct h shards d p avail) = Inr r \<and>
        calls (snd (snd (snd (reconstruct h shards d p avail)))) =
          calls h @ [Malloc (int (length shards)) pointer,
                     Malloc (int (length avail)) apointer,
                     Reconstruct pointer (int (length shards)) d p apointer (int (length avail)) r,
                     Free pointer (int (length shards)),
                     Free apointer (int (length avail))])"
proof -
  let ?n = "int (length shards)" and ?m = "int (length avail)"
  let ?flags = "map (\<lambda>value. if value then 1 else 0) avail :: byte list"
  show ?thesis
  proof (cases "call_malloc ?n h")
    case (Inl e)
    then have "reconstruct h shards d p avail = (Inl e, shards, avail, h)"
      by (simp add: reconstruct_def Let_def)
    then show ?thesis by simp
  next
    case (Inr a)
    then obtain pointer h1 where m1: "call_malloc ?n h = Inr (pointer, h1)" by (cases a) auto
    have c1: "calls h1 = calls h @ [Malloc ?n pointer]" using call_malloc_Inr[OF m1] by simp
    obtain v h2 where g1: "getUint8Memory h1 = (v, h2)" by force
    have c2: "calls h2 = calls h @ [Malloc ?n pointer]"
      using getUint8Memory_buffer(3)[OF g1] c1 by simp
    show ?thesis
    proof (cases "view_set v shards (Finite (of_int pointer)) h2")
      case (Inl e)
      then have "reconstruct h shards d p avail = (Inl e, shards, avail, h2)"
        using m1 g1 by (simp add: reconstruct_def Let_def)
      then show ?thesis using c2 by simp
    next
      case (Inr h3)
      note s1 = Inr
      have c3: "calls h3 = calls h @ [Malloc ?n pointer]" using view_set_keeps[OF s1] c2 by simp
      show ?thesis
      proof (cases "call_malloc ?m h3")
        case (Inl e)
        then have "reconstruct h shards d p avail = (Inl e, shards, avail, h3)"
          using m1 g1 s1 by (simp add: reconstruct_def Let_def)
        then show ?thesis using c3 by simp
      next
        case (Inr b)
        then obtain apointer h4 where m2: "call_malloc ?m h3 = Inr (apointer, h4)"
          by (cases b) auto
        have c4: "calls h4 = calls h @ [Malloc ?n pointer, Malloc ?m apointer]"
          using call_malloc_Inr[OF m2] c3 by simp
        obtain v' h5 where g2: "getUint8Memory h4 = (v', h5)" by force
        have c5: "calls h5 = calls h @ [Malloc ?n pointer, Malloc ?m apointer]"
          using getUint8Memory_buffer(3)[OF g2] c4 by simp
        show ?thesis
        proof (cases "view_set v' ?flags (Finite (of_int apointer)) h5")
          case (Inl e)
          then have "reconstruct h shards d p avail = (Inl e, shards, avail, h5)"
            using m1 g1 s1 m2 g2 by (simp add: reconstruct_def Let_def)
          then show ?thesis using c5 by simp
        next
          case (Inr h6)
          note s2 = Inr
          have c6: "calls h6 = calls h @ [Malloc ?n pointer, Malloc ?m apointer]"
            using view_set_keeps[OF s2] c5 by simp
          show ?thesis
          proof (cases "call_reconstruct pointer ?n d p apointer ?m h6")
            case (Inl e)
            then have "reconstruct h shards d p avail = (Inl e, shards, avail, h6)"
              using m1 g1 s1 m2 g2 s2 by (simp add: reconstruct_def Let_def)
            then show ?thesis using c6 by simp
          next
            case (Inr c)
            then obtain r h7 where
              e: "call_reconstruct pointer ?n d p apointer ?m h6 = Inr (r, h7)"
              by (cases c) auto
            have c7: "calls h7 = calls h @ [Malloc ?n pointer, Malloc ?m apointer,
                Reconstruct pointer ?n d p apointer ?m r]"
              using call_reconstruct_Inr[OF e] c6 by simp
            obtain v'' h8 where g3: "getUint8Memory h7 = (v'', h8)" by force
            have c8: "calls h8 = calls h7" using getUint8Memory_buffer(3)[OF g3] by simp
            let ?copy = "typed_array_set shards
                (subarray (view_bytes v'' h8) (Finite (of_int pointer))
                   (js_plus pointer (js_times (js_divide ?n (d + p)) d)))
                (Finite 0)"
            have run: "reconstruct h shards d p avail =
                (if r = RESULT_OK then
                   (case ?copy of
                      Inl e \<Rightarrow> (Inl e, shards, avail, h8)
                    | Inr shards' \<Rightarrow>
                        release_both_and_return pointer ?n apointer ?m r shards' avail h8)
                 else release_both_and_return pointer ?n apointer ?m r shards avail h7)"
              using m1 g1 s1 m2 g2 s2 e g3 by (simp add: reconstruct_def Let_def)
            show ?thesis
            proof (cases "r = RESULT_OK")
              case False
              then show ?thesis
                using run release_both_and_return_paths[of pointer ?n apointer ?m r shards avail h7] c7
                by auto
            next
              case True
              show ?thesis
              proof (cases ?copy)
                case (Inl e)
                then show ?thesis using run True c7 c8 by auto
              next
                case (Inr shards')
                then show ?thesis
                  using run True c7 c8
                    release_both_and_return_paths[of pointer ?n apointer ?m r shards' avail h8]
                  by auto
              qed
            qed
          qed
        qed
      qed
    qed
  qed
qed



lemma reconstruct_unfold:
  assumes M1: "wbindgen_malloc (exports h) (int (length shards)) (wasm h) = Inr (pointer, w1)"
    and fits1: "0 \<le> pointer" "nat pointer + length shards \<le> length (memory_bytes w1)"
    and M2: "wbindgen_malloc (exports h) (int (length avail))
               (w1\<lparr>memory_bytes := overwrite (memory_bytes w1) (nat pointer) shards\<rparr>)
             = Inr (apointer, w2)"
    and fits2: "0 \<le> apointer" "nat apointer + length avail \<le> length (memory_bytes w2)"
    and R: "exports_reconstruct (exports h) pointer (int (length shards)) d p
              apointer (int (length avail))
              (w2\<lparr>memory_bytes := overwrite (memory_bytes w2) (nat apointer)
                                     (map (\<lambda>value. if value then 1 else 0) avail)\<rparr>)
            = Inr (r, w3)"
  obtains h7 h8 where
    "wasm h7 = w3" "exports h7 = exports h"
    "calls h7 = calls h @ [Malloc (int (length shards)) pointer,
                           Malloc (int (length avail)) apointer,
                           Reconstruct pointer (int (length shards)) d p
                             apointer (int (length avail)) r]"
    "wasm h8 = w3" "exports h8 = exports h" "calls h8 = calls h7"
    "reconstruct h shards d p avail =
      (if r = RESULT_OK then
         (case typed_array_set shards
                 (subarray (memory_bytes w3) (Finite (of_int pointer))
                    (js_plus pointer (js_times (js_divide (int (length shards)) (d + p)) d)))
                 (Finite 0) of
            Inl e \<Rightarrow> (Inl e, shards, avail, h8)
          | Inr shards' \<Rightarrow>
              release_both_and_return pointer (int (length shards)) apointer
                (int (length avail)) r shards' avail h8)
       else release_both_and_return pointer (int (length shards)) apointer
              (int (length avail)) r shards avail h7)"
proof -
  let ?n = "int (length shards)" and ?m = "int (length avail)"
  let ?flags = "map (\<lambda>value. if value then 1 else 0) avail :: byte list"
  let ?h1 = "h\<lparr>wasm := w1, calls := calls h @ [Malloc ?n pointer]\<rparr>"
  have s1: "call_malloc ?n h = Inr (pointer, ?h1)"
    using M1 by (simp add: call_malloc_def)
  obtain v h2 where g1: "getUint8Memory ?h1 = (v, h2)" by force
  have v: "view_buffer v = memory_buffer (wasm h2)" and h2: "wasm h2 = w1"
    "calls h2 = calls h @ [Malloc ?n pointer]" "exports h2 = exports h"
    using getUint8Memory_buffer[OF g1] by simp_all
  let ?w1' = "w1\<lparr>memory_bytes := overwrite (memory_bytes w1) (nat pointer) shards\<rparr>"
  let ?h3 = "h2\<lparr>wasm := ?w1'\<rparr>"
  have s3: "view_set v shards (Finite (of_int pointer)) h2 = Inr ?h3"
    using v h2 fits1 by (simp add: view_set_def typed_array_set_fits)
  let ?h4 = "?h3\<lparr>wasm := w2, calls := calls ?h3 @ [Malloc ?m apointer]\<rparr>"
  have s4: "call_malloc ?m ?h3 = Inr (apointer, ?h4)"
    using M2 h2 by (simp add: call_malloc_def)
  obtain v' h5 where g2: "getUint8Memory ?h4 = (v', h5)" by force
  have v': "view_buffer v' = memory_buffer (wasm h5)" and h5: "wasm h5 = w2"
    "calls h5 = calls h @ [Malloc ?n pointer, Malloc ?m apointer]" "exports h5 = exports h"
    using getUint8Memory_buffer[OF g2] h2 by simp_all
  let ?w2' = "w2\<lparr>memory_bytes := overwrite (memory_bytes w2) (nat apointer) ?flags\<rparr>"
  let ?h6 = "h5\<lparr>wasm := ?w2'\<rparr>"
  have s6: "view_set v' ?flags (Finite (of_int apointer)) h5 = Inr ?h6"
    using v' h5 fits2 by (simp add: view_set_def typed_array_set_fits)
  let ?h7 = "?h6\<lparr>wasm := w3, calls := calls ?h6 @ [Reconstruct pointer ?n d p apointer ?m r]\<rparr>"
  have s7: "call_reconstruct pointer ?n d p apointer ?m ?h6 = Inr (r, ?h7)"
    using R h5 by (simp add: call_reconstruct_def)
  obtain v'' h8 where g3: "getUint8Memory ?h7 = (v'', h8)" by force
  have v'': "view_bytes v'' h8 = memory_bytes w3" and h8: "wasm h8 = w3"
    "calls h8 = calls ?h7" "exports h8 = exports h"
    using getUint8Memory_buffer[OF g3] h5 by (simp_all add: view_bytes_def)
  have "reconstruct h shards d p avail =
      (if r = RESULT_OK then
         (case typed_array_set shards
                 (subarray (memory_bytes w3) (Finite (of_int pointer))
                    (js_plus pointer (js_times (js_divide ?n (d + p)) d)))
                 (Finite 0) of
            Inl e \<Rightarrow> (Inl e, shards, avail, h8)
          | Inr shards' \<Rightarrow> release_both_and_return pointer ?n apointer ?m r shards' avail h8)
       else release_both_and_return pointer ?n apointer ?m r shards avail ?h7)"
    unfolding reconstruct_def Let_def s1 sum.case prod.case g1 s3 s4 g2 s6 s7 g3 v'' ..
  moreover have "wasm ?h7 = w3" "exports ?h7 = exports h"
    "calls ?h7 = calls h @ [Malloc ?n pointer, Malloc ?m apointer,
       Reconstruct pointer ?n d p apointer ?m r]"
    using h5 by simp_all
  ultimately show thesis using h8 that[of ?h7 h8] by simp
qed





text \<open>
  C3, as the code has it.  A call of \<open>encode\<close> or \<open>reconstruct\<close> that returns a code,
  \<open>OK\<close> or not, has released each region it acquired exactly once, after the engine's
  call: the calls it added to the record are the acquisitions, the engine's call and the
  releases, in this order.  A call that ends by an exception has not released what it
  acquired: \<open>encode\<close> has released nothing, and \<open>reconstruct\<close> has released fewer
  regions than it acquired (if it acquired any).
\<close>

theorem release_exactly_once_when_a_code_is_returned:
  "(fst (encode this shards d p) = Inr r \<longrightarrow>
      (\<exists>pointer. calls (snd (snd (encode this shards d p))) =
         calls this @ [Malloc (int (length shards)) pointer,
                       Encode pointer (int (length shards)) d p r,
                       Free pointer (int (length shards))])) \<and>
   (fst (reconstruct this shards d p shardsAvailable) = Inr r \<longrightarrow>
      (\<exists>pointer apointer.
         calls (snd (snd (snd (reconstruct this shards d p shardsAvailable)))) =
         calls this @ [Malloc (int (length shards)) pointer,
                       Malloc (int (length shardsAvailable)) apointer,
                       Reconstruct pointer (int (length shards)) d p
                         apointer (int (length shardsAvailable)) r,
                       Free pointer (int (length shards)),
                       Free apointer (int (length shardsAvailable))])) \<and>
   (fst (encode this shards d p) = Inl e \<longrightarrow>
      released (calls_since this (snd (snd (encode this shards d p)))) = 0) \<and>
   (fst (reconstruct this shards d p shardsAvailable) = Inl e \<longrightarrow>
      acquired (calls_since this (snd (snd (snd (reconstruct this shards d p shardsAvailable))))) = 0 \<or>
      released (calls_since this (snd (snd (snd (reconstruct this shards d p shardsAvailable)))))
        < acquired (calls_since this (snd (snd (snd (reconstruct this shards d p shardsAvailable))))))"
proof (intro conjI impI)
  assume "fst (encode this shards d p) = Inr r"
  then show "\<exists>pointer. calls (snd (snd (encode this shards d p))) =
         calls this @ [Malloc (int (length shards)) pointer,
                       Encode pointer (int (length shards)) d p r,
                       Free pointer (int (length shards))]"
    using encode_paths[of this shards d p] by auto
next
  assume "fst (reconstruct this shards d p shardsAvailable) = Inr r"
  then show "\<exists>pointer apointer.
         calls (snd (snd (snd (reconstruct this shards d p shardsAvailable)))) =
         calls this @ [Malloc (int (length shards)) pointer,
                       Malloc (int (length shardsAvailable)) apointer,
                       Reconstruct pointer (int (length shards)) d p
                         apointer (int (length shardsAvailable)) r,
                       Free pointer (int (length shards)),
                       Free apointer (int (length shardsAvailable))]"
    using reconstruct_paths[of this shards d p shardsAvailable] by auto
next
  assume "fst (encode this shards d p) = Inl e"
  then show "released (calls_since this (snd (snd (encode this shards d p)))) = 0"
    using encode_paths[of this shards d p]
    by (auto simp: calls_since_def released_def)
next
  assume "fst (reconstruct this shards d p shardsAvailable) = Inl e"
  then show "acquired (calls_since this (snd (snd (snd (reconstruct this shards d p shardsAvailable))))) = 0 \<or>
      released (calls_since this (snd (snd (snd (reconstruct this shards d p shardsAvailable)))))
        < acquired (calls_since this (snd (snd (snd (reconstruct this shards d p shardsAvailable)))))"
    using reconstruct_paths[of this shards d p shardsAvailable]
    by (auto simp: calls_since_def released_def acquired_def)
qed

text \<open>
  C3 as the specification words it fails where the copy into the engine's memory throws: the
  allocator of \<open>cramped_handle\<close> returns offset 2 of a memory of four bytes, the four
  bytes of the buffer do not fit there, \<^verbatim>\<open>set\<close> throws \<^verbatim>\<open>RangeError\<close>, and the call
  ends with the region acquired and no release.
\<close>

theorem release_skipped_when_copy_in_throws:
  "fst (encode cramped_handle [1, 2, 3, 4] 1 1) = Inl RangeError \<and>
   calls (snd (snd (encode cramped_handle [1, 2, 3, 4] 1 1))) = [Malloc 4 2]"
  by code_simp

theorem release_exactly_once_when_a_code_is_returned_witness:
  "fst (encode stub_handle [1, 2, 3, 4, 0, 0] 2 1) = Inr 0 \<and>
   fst (encode cramped_handle [1, 2, 3, 4] 1 1) = Inl RangeError \<and>
   fst (reconstruct stub_handle [1, 2, 0, 0, 2, 6] 2 1 [True, False, True]) = Inr 0 \<and>
   (\<exists>pointer. calls (snd (snd (encode stub_handle [1, 2, 3, 4, 0, 0] 2 1))) =
      calls stub_handle @ [Malloc 6 pointer, Encode pointer 6 2 1 0, Free pointer 6]) \<and>
   (\<exists>pointer apointer.
      calls (snd (snd (snd (reconstruct stub_handle [1, 2, 0, 0, 2, 6] 2 1 [True, False, True])))) =
      calls stub_handle @ [Malloc 6 pointer, Malloc 3 apointer,
        Reconstruct pointer 6 2 1 apointer 3 0, Free pointer 6, Free apointer 3]) \<and>
   released (calls_since cramped_handle (snd (snd (encode cramped_handle [1, 2, 3, 4] 1 1)))) = 0"
proof -
  have 1: "fst (encode stub_handle [1, 2, 3, 4, 0, 0] 2 1) = Inr 0" by code_simp
  have 2: "fst (encode cramped_handle [1, 2, 3, 4] 1 1) = Inl RangeError" by code_simp
  have 3: "fst (reconstruct stub_handle [1, 2, 0, 0, 2, 6] 2 1 [True, False, True]) = Inr 0"
    by code_simp
  from release_exactly_once_when_a_code_is_returned
    [of stub_handle "[1, 2, 3, 4, 0, 0]" 2 1 0 "[True, False, True]" RangeError] 1
  have a: "\<exists>pointer. calls (snd (snd (encode stub_handle [1, 2, 3, 4, 0, 0] 2 1))) =
      calls stub_handle @ [Malloc 6 pointer, Encode pointer 6 2 1 0, Free pointer 6]"
    by simp
  from release_exactly_once_when_a_code_is_returned
    [of stub_handle "[1, 2, 0, 0, 2, 6]" 2 1 0 "[True, False, True]" RangeError] 3
  have b: "\<exists>pointer apointer.
      calls (snd (snd (snd (reconstruct stub_handle [1, 2, 0, 0, 2, 6] 2 1 [True, False, True])))) =
      calls stub_handle @ [Malloc 6 pointer, Malloc 3 apointer,
        Reconstruct pointer 6 2 1 apointer 3 0, Free pointer 6, Free apointer 3]"
    by simp
  from release_exactly_once_when_a_code_is_returned
    [of cramped_handle "[1, 2, 3, 4]" 1 1 0 "[]" RangeError] 2
  have c: "released (calls_since cramped_handle (snd (snd (encode cramped_handle [1, 2, 3, 4] 1 1)))) = 0"
    by simp
  from 1 2 3 a b c show ?thesis by blast
qed

section \<open>What reaches the engine\<close>


lemma reconstruct_engine_call:
  assumes "wbindgen_malloc (exports h) (int (length shards)) (wasm h) = Inr (pointer, w1)"
    and "0 \<le> pointer" and "nat pointer + length shards \<le> length (memory_bytes w1)"
    and "wbindgen_malloc (exports h) (int (length avail))
           (w1\<lparr>memory_bytes := overwrite (memory_bytes w1) (nat pointer) shards\<rparr>)
         = Inr (apointer, w2)"
    and "0 \<le> apointer" and "nat apointer + length avail \<le> length (memory_bytes w2)"
    and "exports_reconstruct (exports h) pointer (int (length shards)) d p
           apointer (int (length avail))
           (w2\<lparr>memory_bytes := overwrite (memory_bytes w2) (nat apointer)
                                  (map (\<lambda>value. if value then 1 else 0) avail)\<rparr>)
         = Inr (r, w3)"
  shows "Malloc (int (length avail)) apointer
           \<in> set (calls (snd (snd (snd (reconstruct h shards d p avail)))))"
    and "Reconstruct pointer (int (length shards)) d p apointer (int (length avail)) r
           \<in> set (calls (snd (snd (snd (reconstruct h shards d p avail)))))"
    and "\<forall>x. fst (reconstruct h shards d p avail) = Inr x \<longrightarrow> x = r"
proof -
  let ?n = "int (length shards)" and ?m = "int (length avail)"
  let ?copy = "typed_array_set shards
      (subarray (memory_bytes w3) (Finite (of_int pointer))
         (js_plus pointer (js_times (js_divide ?n (d + p)) d)))
      (Finite 0)"
  obtain h7 h8 where
    c7: "calls h7 = calls h @ [Malloc ?n pointer, Malloc ?m apointer,
           Reconstruct pointer ?n d p apointer ?m r]"
    and c8: "calls h8 = calls h7"
    and run: "reconstruct h shards d p avail =
      (if r = RESULT_OK then
         (case ?copy of
            Inl e \<Rightarrow> (Inl e, shards, avail, h8)
          | Inr shards' \<Rightarrow> release_both_and_return pointer ?n apointer ?m r shards' avail h8)
       else release_both_and_return pointer ?n apointer ?m r shards avail h7)"
    using reconstruct_unfold[OF assms] by metis
  have "Malloc ?m apointer \<in> set (calls (snd (snd (snd (reconstruct h shards d p avail))))) \<and>
      Reconstruct pointer ?n d p apointer ?m r
        \<in> set (calls (snd (snd (snd (reconstruct h shards d p avail))))) \<and>
      (\<forall>x. fst (reconstruct h shards d p avail) = Inr x \<longrightarrow> x = r)"
  proof (cases "r = RESULT_OK")
    case False
    then show ?thesis
      using run c7 release_both_and_return_paths[of pointer ?n apointer ?m r shards avail h7]
      by auto
  next
    case True
    show ?thesis
    proof (cases ?copy)
      case (Inl e)
      then show ?thesis using run True c7 c8 by auto
    next
      case (Inr shards')
      then show ?thesis
        using run True c7 c8
          release_both_and_return_paths[of pointer ?n apointer ?m r shards' avail h8]
        by auto
    qed
  qed
  then show "Malloc ?m apointer \<in> set (calls (snd (snd (snd (reconstruct h shards d p avail)))))"
    and "Reconstruct pointer ?n d p apointer ?m r
        \<in> set (calls (snd (snd (snd (reconstruct h shards d p avail)))))"
    and "\<forall>x. fst (reconstruct h shards d p avail) = Inr x \<longrightarrow> x = r"
    by blast+
qed







text \<open>
  C9.  \<open>reconstruct\<close> leaves the caller's \<open>shardsAvailable\<close> array as it was, whatever
  the outcome.  What it copies to the engine is a new array with one byte per entry (1
  for true, 0 for false): once both regions are acquired and filled, the engine's
  \<open>reconstruct\<close> is called on the memory that holds these bytes at \<open>apointer\<close>, with
  \<open>length shardsAvailable\<close> as the last argument, whatever \<open>d + p\<close> is.
\<close>

theorem reconstruct_keeps_shardsAvailable:
  "fst (snd (snd (reconstruct this shards d p shardsAvailable))) = shardsAvailable \<and>
   (wbindgen_malloc (exports this) (int (length shards)) (wasm this) = Inr (pointer, w1) \<and>
    0 \<le> pointer \<and> nat pointer + length shards \<le> length (memory_bytes w1) \<and>
    wbindgen_malloc (exports this) (int (length shardsAvailable))
      (w1\<lparr>memory_bytes := overwrite (memory_bytes w1) (nat pointer) shards\<rparr>)
      = Inr (apointer, w2) \<and>
    0 \<le> apointer \<and> nat apointer + length shardsAvailable \<le> length (memory_bytes w2) \<and>
    exports_reconstruct (exports this) pointer (int (length shards)) d p
      apointer (int (length shardsAvailable))
      (w2\<lparr>memory_bytes := overwrite (memory_bytes w2) (nat apointer)
                             (map (\<lambda>value. if value then 1 else 0) shardsAvailable)\<rparr>)
      = Inr (r, w3) \<longrightarrow>
      Malloc (int (length shardsAvailable)) apointer
        \<in> set (calls (snd (snd (snd (reconstruct this shards d p shardsAvailable))))) \<and>
      Reconstruct pointer (int (length shards)) d p apointer (int (length shardsAvailable)) r
        \<in> set (calls (snd (snd (snd (reconstruct this shards d p shardsAvailable))))) \<and>
      (\<forall>x. fst (reconstruct this shards d p shardsAvailable) = Inr x \<longrightarrow> x = r))"
  using reconstruct_keeps_flags[of this shards d p shardsAvailable]
    reconstruct_engine_call[of this shards pointer w1 shardsAvailable apointer w2 d p r w3]
  by blast

theorem reconstruct_keeps_shardsAvailable_witness:
  "int (length [True, False]) \<noteq> 2 + 1 \<and>
   fst (snd (snd (reconstruct stub_handle [1, 2, 0, 0, 2, 6] 2 1 [True, False]))) = [True, False] \<and>
   Reconstruct 0 6 2 1 6 2 12
     \<in> set (calls (snd (snd (snd (reconstruct stub_handle [1, 2, 0, 0, 2, 6] 2 1 [True, False])))))"
proof -
  let ?shards = "[1, 2, 0, 0, 2, 6] :: byte list"
  let ?a = "[True, False]"
  let ?w1 = "\<lparr>memory_buffer = 1, memory_bytes = [0, 0, 0, 0, 0, 0], internals = 6 :: nat\<rparr>"
  let ?w2 = "\<lparr>memory_buffer = 2, memory_bytes = [1, 2, 0, 0, 2, 6, 0, 0], internals = 8 :: nat\<rparr>"
  let ?w3 = "\<lparr>memory_buffer = 2, memory_bytes = [1, 2, 0, 0, 2, 6, 1, 0], internals = 8 :: nat\<rparr>"
  have M1: "wbindgen_malloc (exports stub_handle) (int (length ?shards)) (wasm stub_handle)
      = Inr (0, ?w1)"
    by code_simp
  have fits1: "(0::int) \<le> 0 \<and> nat 0 + length ?shards \<le> length (memory_bytes ?w1)"
    by simp
  have M2: "wbindgen_malloc (exports stub_handle) (int (length ?a))
      (?w1\<lparr>memory_bytes := overwrite (memory_bytes ?w1) (nat 0) ?shards\<rparr>) = Inr (6, ?w2)"
    by code_simp
  have fits2: "(0::int) \<le> 6 \<and> nat 6 + length ?a \<le> length (memory_bytes ?w2)"
    by simp
  have R: "exports_reconstruct (exports stub_handle) 0 (int (length ?shards)) 2 1
      6 (int (length ?a))
      (?w2\<lparr>memory_bytes := overwrite (memory_bytes ?w2) (nat 6)
                               (map (\<lambda>value. if value then 1 else 0) ?a)\<rparr>) = Inr (12, ?w3)"
    by code_simp
  from reconstruct_keeps_shardsAvailable[where this = stub_handle and shards = ?shards
      and shardsAvailable = ?a and d = 2 and p = 1 and pointer = 0 and ?w1.0 = ?w1
      and apointer = 6 and ?w2.0 = ?w2 and r = 12 and ?w3.0 = ?w3]
    M1 fits1 M2 fits2 R
  show ?thesis by simp
qed


section \<open>Two calls on the same data\<close>
























section \<open>The singleton\<close>

text \<open>
  C4 at a load that fails.  On a freshly loaded module in Node.js, \<open>getInstance\<close> is
  called with the path of a file that does not exist; it starts the instantiation
  (promise 1) and suspends.  The instantiation is rejected.  The call's promise is
  rejected, nothing is cached, and \<open>loadingPromise\<close> still holds promise 1: the
  assignment of \<^verbatim>\<open>null\<close> after the \<^verbatim>\<open>await\<close> is not reached.  A later call with a good
  path starts no instantiation and gets the same rejection.
\<close>

theorem getInstance_rejection_keeps_loadingPromise:
  "(let (p1, m1) = getInstance False (Some ''missing.wasm'') (module_loaded :: nat module_state);
        m2 = settle 1 (Rejected (Error ''ENOENT'')) m1;
        (p3, m3) = getInstance False (Some ''good.wasm'') m2
    in instantiations m1 = [(1, FromFile ''missing.wasm'')] \<and>
       loadingPromise m1 = Some 1 \<and>
       settled m2 p1 = Some (Rejected (Error ''ENOENT'')) \<and>
       cachedInstance m2 = None \<and>
       loadingPromise m2 = Some 1 \<and>
       instantiations m3 = [(1, FromFile ''missing.wasm'')] \<and>
       settled m3 p3 = Some (Rejected (Error ''ENOENT'')))"
  by code_simp

text \<open>Two callers during one successful load share the instantiation and its handle.\<close>

lemma getInstance_shares_the_instantiation:
  "(let (p1, m1) = getInstance False (Some ''a.wasm'') (module_loaded :: nat module_state);
        (p2, m2) = getInstance False (Some ''b.wasm'') m1;
        m3 = settle 1 (Fulfilled 42) m2;
        (p4, m4) = getInstance False None m3
    in instantiations m4 = [(1, FromFile ''a.wasm'')] \<and>
       loadingPromise m3 = None \<and> cachedInstance m3 = Some 42 \<and>
       settled m3 p1 = Some (Fulfilled 42) \<and> settled m3 p2 = Some (Fulfilled 42) \<and>
       settled m4 p4 = Some (Fulfilled 42))"
  by code_simp

end
